theory Spec2Isabelle
  imports Complex_Main "HOL-Library.Word"
begin

unbundle bit_operations_syntax

section \<open>Go strings and the \<open>strings\<close> package\<close>

text \<open>
  A Go \<open>string\<close> and a Go \<open>[]byte\<close> are both sequences of bytes; both are modelled as
  \<open>string\<close> (a list of 8-bit \<open>char\<close>s), so the conversions \<open>[]byte(s)\<close> and \<open>string(b)\<close>
  are the identity.

  \<open>strings.ToLower\<close>, \<open>strings.ToUpper\<close> and \<open>strings.TrimSpace\<close> work on bytes when every
  byte of the text is below \<open>0x80\<close> (\<open>utf8.RuneSelf\<close>): the letters \<open>A\<close>..\<open>Z\<close> and
  \<open>a\<close>..\<open>z\<close> are mapped, the white space \<open>\t \n \v \f \r\<close> and the blank is cut. On any
  other text they work on Unicode code points: the result is
  \<open>strings.Map(unicode.ToLower, s)\<close>, \<open>strings.Map(unicode.ToUpper, s)\<close> and
  \<open>strings.TrimFunc(s, unicode.IsSpace)\<close>. The tables of package \<open>unicode\<close> are not
  embedded; these three functions are a parameter of everything that lowers, raises or
  trims a text, and nothing is assumed about them.
\<close>

record unicode =
  Map_unicode_ToLower :: "string \<Rightarrow> string"
  Map_unicode_ToUpper :: "string \<Rightarrow> string"
  TrimFunc_unicode_IsSpace :: "string \<Rightarrow> string"

definition isASCII :: "string \<Rightarrow> bool" where
  "isASCII s = list_all (\<lambda>c. (of_char c :: nat) < 128) s"

definition isUpper :: "char \<Rightarrow> bool" where
  "isUpper c = (65 \<le> (of_char c :: nat) \<and> (of_char c :: nat) \<le> 90)"

definition toLowerByte :: "char \<Rightarrow> char" where
  "toLowerByte c = (if isUpper c then char_of ((of_char c :: nat) + 32) else c)"

definition ToLower :: "unicode \<Rightarrow> string \<Rightarrow> string" where
  "ToLower U s = (if isASCII s then map toLowerByte s else Map_unicode_ToLower U s)"

definition isLower :: "char \<Rightarrow> bool" where
  "isLower c = (97 \<le> (of_char c :: nat) \<and> (of_char c :: nat) \<le> 122)"

definition toUpperByte :: "char \<Rightarrow> char" where
  "toUpperByte c = (if isLower c then char_of ((of_char c :: nat) - 32) else c)"

definition ToUpper :: "unicode \<Rightarrow> string \<Rightarrow> string" where
  "ToUpper U s = (if isASCII s then map toUpperByte s else Map_unicode_ToUpper U s)"

definition asciiSpace :: "char \<Rightarrow> bool" where
  "asciiSpace c = (c = CHR 0x09 \<or> c = CHR 0x0A \<or> c = CHR 0x0B \<or> c = CHR 0x0C
     \<or> c = CHR 0x0D \<or> c = CHR '' '')"

definition TrimSpace :: "unicode \<Rightarrow> string \<Rightarrow> string" where
  "TrimSpace U s =
     (if isASCII s then rev (dropWhile asciiSpace (rev (dropWhile asciiSpace s)))
      else TrimFunc_unicode_IsSpace U s)"

text \<open>
  The examples below are ASCII text, on which the three functions are never called;
  there they are the functions that leave a text as it is.
\<close>

definition unicode_unused :: unicode where
  "unicode_unused =
     \<lparr>Map_unicode_ToLower = (\<lambda>s. s), Map_unicode_ToUpper = (\<lambda>s. s),
      TrimFunc_unicode_IsSpace = (\<lambda>s. s)\<rparr>"

fun HasPrefix :: "string \<Rightarrow> string \<Rightarrow> bool" where
  "HasPrefix s [] = True"
| "HasPrefix [] (p # ps) = False"
| "HasPrefix (c # cs) (p # ps) = (c = p \<and> HasPrefix cs ps)"

text \<open>\<open>strings.Contains(s, substr)\<close>: \<open>substr\<close> occurs in \<open>s\<close> at some offset.\<close>

fun Contains :: "string \<Rightarrow> string \<Rightarrow> bool" where
  "Contains [] substr = (substr = [])"
| "Contains (c # cs) substr = (HasPrefix (c # cs) substr \<or> Contains cs substr)"

section \<open>Package \<open>utils\<close>: the transaction status mapper\<close>

text \<open>
  \<^verbatim>\<open>func MapTransactionStatus(input string) string\<close>: a \<open>switch\<close> without a tag, whose
  cases are tried in order.
\<close>

definition MapTransactionStatus :: "unicode \<Rightarrow> string \<Rightarrow> string" where
  "MapTransactionStatus U input0 =
     (let input = ToLower U input0 in
      if Contains input ''pending'' \<or> Contains input ''in_progress''
           \<or> Contains input ''processing'' then ''pending''
      else if Contains input ''completed'' \<or> Contains input ''confirmed'' then ''completed''
      else if input = ''paid'' then ''paid''
      else if Contains input ''failed'' \<or> Contains input ''error'' then ''failed''
      else ''new'')"

section \<open>The standard library's \<open>crypto/sha256\<close>, \<open>crypto/hmac\<close> and \<open>encoding/hex\<close>\<close>

text \<open>
  \<open>ValidateSignature\<close> calls \<open>hmac.New(sha256.New, key)\<close>, \<open>Write\<close>, \<open>Sum(nil)\<close>,
  \<open>hex.EncodeToString\<close> and \<open>hmac.Equal\<close>. These are Go's standard library, which
  implements SHA-256 as in FIPS 180-4 and HMAC as in RFC 2104; they are embedded from
  those definitions.
\<close>

type_synonym word32 = "32 word"

definition Ch :: "word32 \<Rightarrow> word32 \<Rightarrow> word32 \<Rightarrow> word32" where
  "Ch x y z = (x AND y) XOR (NOT x AND z)"

definition Maj :: "word32 \<Rightarrow> word32 \<Rightarrow> word32 \<Rightarrow> word32" where
  "Maj x y z = (x AND y) XOR (x AND z) XOR (y AND z)"

definition bsig0 :: "word32 \<Rightarrow> word32" where
  "bsig0 x = word_rotr 2 x XOR word_rotr 13 x XOR word_rotr 22 x"

definition bsig1 :: "word32 \<Rightarrow> word32" where
  "bsig1 x = word_rotr 6 x XOR word_rotr 11 x XOR word_rotr 25 x"

definition ssig0 :: "word32 \<Rightarrow> word32" where
  "ssig0 x = word_rotr 7 x XOR word_rotr 18 x XOR drop_bit 3 x"

definition ssig1 :: "word32 \<Rightarrow> word32" where
  "ssig1 x = word_rotr 17 x XOR word_rotr 19 x XOR drop_bit 10 x"

definition sha256_K :: "word32 list" where
  "sha256_K = concat
     [[0x428a2f98, 0x71374491, 0xb5c0fbcf, 0xe9b5dba5, 0x3956c25b, 0x59f111f1, 0x923f82a4, 0xab1c5ed5],
      [0xd807aa98, 0x12835b01, 0x243185be, 0x550c7dc3, 0x72be5d74, 0x80deb1fe, 0x9bdc06a7, 0xc19bf174],
      [0xe49b69c1, 0xefbe4786, 0x0fc19dc6, 0x240ca1cc, 0x2de92c6f, 0x4a7484aa, 0x5cb0a9dc, 0x76f988da],
      [0x983e5152, 0xa831c66d, 0xb00327c8, 0xbf597fc7, 0xc6e00bf3, 0xd5a79147, 0x06ca6351, 0x14292967],
      [0x27b70a85, 0x2e1b2138, 0x4d2c6dfc, 0x53380d13, 0x650a7354, 0x766a0abb, 0x81c2c92e, 0x92722c85],
      [0xa2bfe8a1, 0xa81a664b, 0xc24b8b70, 0xc76c51a3, 0xd192e819, 0xd6990624, 0xf40e3585, 0x106aa070],
      [0x19a4c116, 0x1e376c08, 0x2748774c, 0x34b0bcb5, 0x391c0cb3, 0x4ed8aa4a, 0x5b9cca4f, 0x682e6ff3],
      [0x748f82ee, 0x78a5636f, 0x84c87814, 0x8cc70208, 0x90befffa, 0xa4506ceb, 0xbef9a3f7, 0xc67178f2]]"

type_synonym sha256_state =
  "word32 \<times> word32 \<times> word32 \<times> word32 \<times> word32 \<times> word32 \<times> word32 \<times> word32"

definition sha256_init :: sha256_state where
  "sha256_init = (0x6a09e667, 0xbb67ae85, 0x3c6ef372, 0xa54ff53a,
                  0x510e527f, 0x9b05688c, 0x1f83d9ab, 0x5be0cd19)"

text \<open>Big-endian conversions between bytes and words.\<close>

definition be32 :: "char \<Rightarrow> char \<Rightarrow> char \<Rightarrow> char \<Rightarrow> word32" where
  "be32 b0 b1 b2 b3 =
     push_bit 24 (of_char b0) OR push_bit 16 (of_char b1) OR push_bit 8 (of_char b2) OR of_char b3"

definition bytes_of_word32 :: "word32 \<Rightarrow> string" where
  "bytes_of_word32 w =
     [char_of (uint (drop_bit 24 w)), char_of (uint (drop_bit 16 w)),
      char_of (uint (drop_bit 8 w)), char_of (uint w)]"

definition bytes_of_len64 :: "64 word \<Rightarrow> string" where
  "bytes_of_len64 n = map (\<lambda>i. char_of (uint (drop_bit (8 * i) n))) [7, 6, 5, 4, 3, 2, 1, 0]"

fun words_of_bytes :: "string \<Rightarrow> word32 list" where
  "words_of_bytes (b0 # b1 # b2 # b3 # bs) = be32 b0 b1 b2 b3 # words_of_bytes bs"
| "words_of_bytes bs = []"

text \<open>
  The padding: the byte \<open>0x80\<close>, zero bytes up to 56 modulo 64, and the length of the
  message in bits as a 64-bit big-endian number.
\<close>

definition sha256_pad :: "string \<Rightarrow> string" where
  "sha256_pad msg =
     msg @ [CHR 0x80] @ replicate ((64 - (length msg + 9) mod 64) mod 64) (CHR 0x00)
       @ bytes_of_len64 (of_nat (8 * length msg))"

text \<open>The message schedule: sixteen words of the block, extended to sixty-four.\<close>

fun sha256_extend :: "nat \<Rightarrow> word32 list \<Rightarrow> word32 list" where
  "sha256_extend 0 w = w"
| "sha256_extend (Suc n) w =
     (let t = length w in
      sha256_extend n
        (w @ [ssig1 (w ! (t - 2)) + w ! (t - 7) + ssig0 (w ! (t - 15)) + w ! (t - 16)]))"

definition sha256_round :: "sha256_state \<Rightarrow> word32 \<times> word32 \<Rightarrow> sha256_state" where
  "sha256_round st kw =
     (case st of (a, b, c, d, e, f, g, h) \<Rightarrow>
        (let t1 = h + bsig1 e + Ch e f g + fst kw + snd kw;
             t2 = bsig0 a + Maj a b c
         in (t1 + t2, a, b, c, d + t1, e, f, g)))"

definition sha256_block :: "sha256_state \<Rightarrow> string \<Rightarrow> sha256_state" where
  "sha256_block st blk =
     (case st of (a, b, c, d, e, f, g, h) \<Rightarrow>
        (case foldl sha256_round st (zip sha256_K (sha256_extend 48 (words_of_bytes blk))) of
           (a', b', c', d', e', f', g', h') \<Rightarrow>
             (a + a', b + b', c + c', d + d', e + e', f + f', g + g', h + h')))"

text \<open>The blocks of a padded message, 64 bytes each (\<open>n\<close> is the number of blocks).\<close>

fun sha256_blocks :: "nat \<Rightarrow> sha256_state \<Rightarrow> string \<Rightarrow> sha256_state" where
  "sha256_blocks 0 st bs = st"
| "sha256_blocks (Suc n) st bs = sha256_blocks n (sha256_block st (take 64 bs)) (drop 64 bs)"

definition sha256_Sum256 :: "string \<Rightarrow> string" where
  "sha256_Sum256 msg =
     (let p = sha256_pad msg in
      case sha256_blocks (length p div 64) sha256_init p of
        (a, b, c, d, e, f, g, h) \<Rightarrow> concat (map bytes_of_word32 [a, b, c, d, e, f, g, h]))"

text \<open>
  \<open>hmac.New(sha256.New, key)\<close>: a key longer than the block size (64) is hashed first;
  the key is then copied into two blocks of 64 zero bytes, which are XORed with \<open>0x36\<close>
  (inner pad) and \<open>0x5c\<close> (outer pad). \<open>Write(payload)\<close> and \<open>Sum(nil)\<close> give the
  outer hash of the outer pad and the inner hash.
\<close>

definition xor_byte :: "int \<Rightarrow> char \<Rightarrow> char" where
  "xor_byte n c = char_of ((of_char c :: int) XOR n)"

definition hmac_key_block :: "string \<Rightarrow> string" where
  "hmac_key_block key =
     (let k = (if length key > 64 then sha256_Sum256 key else key)
      in k @ replicate (64 - length k) (CHR 0x00))"

definition hmac_sha256 :: "string \<Rightarrow> string \<Rightarrow> string" where
  "hmac_sha256 key payload =
     (let kb = hmac_key_block key;
          ipad = map (xor_byte 0x36) kb;
          opad = map (xor_byte 0x5c) kb
      in sha256_Sum256 (opad @ sha256_Sum256 (ipad @ payload)))"

text \<open>\<open>hex.EncodeToString\<close>: two lower-case hexadecimal digits for each byte.\<close>

definition hextable :: string where
  "hextable = ''0123456789abcdef''"

definition hex_EncodeToString :: "string \<Rightarrow> string" where
  "hex_EncodeToString src =
     concat (map (\<lambda>c. [hextable ! ((of_char c :: nat) div 16),
                        hextable ! ((of_char c :: nat) mod 16)]) src)"

text \<open>
  \<open>hmac.Equal\<close> is \<open>subtle.ConstantTimeCompare(a, b) == 1\<close>: true exactly when the two
  byte sequences have the same length and contents. Its running time is not modelled.
\<close>

definition hmac_Equal :: "string \<Rightarrow> string \<Rightarrow> bool" where
  "hmac_Equal mac1 mac2 = (mac1 = mac2)"

section \<open>Package \<open>onramper\<close>: the signature verifier\<close>

text \<open>\<^verbatim>\<open>func (w *OnramperManager) ValidateSignature(receivedSignature string, payload []byte, secret string) bool\<close>\<close>

definition ValidateSignature :: "string \<Rightarrow> string \<Rightarrow> string \<Rightarrow> bool" where
  "ValidateSignature receivedSignature payload secret =
     (if secret = '''' then False
      else (let expectedMAC = hex_EncodeToString (hmac_sha256 secret payload)
            in hmac_Equal receivedSignature expectedMAC))"

section \<open>Package \<open>models\<close>: the webhook payload\<close>

text \<open>
  \<^verbatim>\<open>type WebhookPayload struct\<close>. The two \<open>float64\<close> amounts and the \<open>time.Time\<close> are only
  copied from field to field by the code below; an amount is modelled as a \<open>real\<close> and
  the time stamp as its text.
\<close>

record WebhookPayload =
  Country :: string
  InAmount :: real
  Onramp :: string
  OnrampTransactionID :: string
  OutAmount :: real
  PaymentMethod :: string
  PartnerContext :: string
  SourceCurrency :: string
  Status :: string
  StatusDate :: string
  TargetCurrency :: string
  TransactionID :: string
  TransactionType :: string
  TransactionHash :: string
  WalletAddress :: string

text \<open>The zero value of the struct (\<^verbatim>\<open>var payload models.WebhookPayload\<close>).\<close>

definition zero_WebhookPayload :: WebhookPayload where
  "zero_WebhookPayload =
     \<lparr>Country = '''', InAmount = 0, Onramp = '''', OnrampTransactionID = '''', OutAmount = 0,
      PaymentMethod = '''', PartnerContext = '''', SourceCurrency = '''', Status = '''',
      StatusDate = '''', TargetCurrency = '''', TransactionID = '''', TransactionType = '''',
      TransactionHash = '''', WalletAddress = ''''\<rparr>"

section \<open>Package \<open>database\<close>: the GraphQL client\<close>

text \<open>
  Every method of \<open>GraphQLClient\<close> sends one GraphQL document with
  \<^verbatim>\<open>c.client.ExecRaw(ctx, query, variables)\<close> and decodes the answer with
  \<^verbatim>\<open>json.Unmarshal(raw, &result)\<close> into its own \<open>resultResponse\<close> struct. The remote
  endpoint is outside the repository: it is a state \<open>'s\<close> and, for each of the three
  documents, a function from what is sent and the state to the new state and a reply:
  \<open>ExecRaw\<close> failed, the bytes did not decode, or the decoded struct (a JSON \<open>null\<close> or a
  missing field leaves the struct's field at its zero value, the empty string). A
  method takes that function for its document as its first argument.
\<close>

datatype 'r reply = ExecError string | DecodeError string | Data 'r

text \<open>The \<open>object\<close> variable of the mutation \<open>UpsertFiatTransaction\<close>.\<close>

record fiat_transaction =
  user_id :: string
  country :: string
  in_amount :: real
  out_amount :: real
  payment_method :: string
  source_currency :: string
  target_currency :: string
  transaction_type :: string
  transaction_status :: string
  transaction_hash :: string
  partner_context :: string
  wallet_address :: string
  onramp_transaction_id :: string
  transaction_id :: string

text \<open>
  The mutation \<open>UpsertKYCStatus\<close> as it is sent, the variables put in their places:
  \<^verbatim>\<open>insert_<table>_one(object: {...}, on_conflict: {constraint: ..., update_columns: [...], where: {<column>: {_neq: <value>}}}) {<selection>}\<close>.
\<close>

record insert_one =
  into_table :: string
  insert_object :: "(string \<times> string) list"
  on_conflict_constraint :: string
  update_columns :: "string list"
  where_neq :: "(string \<times> string) option"
  selection :: "string list"

text \<open>
  The decoded structs are \<open>(UserID, TransactionID, TransactionStatus)\<close> for the upsert of
  a transaction, \<open>UserID\<close> for the lookup and \<open>(SessionID, Status)\<close> for the upsert of
  the verification status.
\<close>

record 's GraphQLClient =
  ExecRaw_UpsertFiatTransaction ::
    "fiat_transaction \<Rightarrow> 's \<Rightarrow> (string \<times> string \<times> string) reply \<times> 's"
  ExecRaw_GetUserIDFromTransaction ::
    "string \<Rightarrow> string \<Rightarrow> string \<Rightarrow> 's \<Rightarrow> string reply \<times> 's"
  ExecRaw_UpsertKYCStatus ::
    "insert_one \<Rightarrow> 's \<Rightarrow> (string \<times> string) reply \<times> 's"

text \<open>
  A Go function that returns \<open>(value, err)\<close> returns a pair here; \<open>None\<close> is the \<open>nil\<close>
  error and \<open>Some msg\<close> an error whose \<open>Error()\<close> text is \<open>msg\<close>.
\<close>

type_synonym 'a result = "'a \<times> string option"

text \<open>\<^verbatim>\<open>func (c *GraphQLClient) UpsertOnramperTransaction(ctx, onrampTx, userID) (updatedUserID string, err error)\<close>\<close>

definition UpsertOnramperTransaction ::
  "unicode \<Rightarrow> (fiat_transaction \<Rightarrow> 's \<Rightarrow> (string \<times> string \<times> string) reply \<times> 's)
     \<Rightarrow> WebhookPayload \<Rightarrow> string \<Rightarrow> 's \<Rightarrow> string result \<times> 's" where
  "UpsertOnramperTransaction U ExecRaw onrampTx userID s =
     (case ExecRaw
             \<lparr>user_id = userID,
              country = Country onrampTx,
              in_amount = InAmount onrampTx,
              out_amount = OutAmount onrampTx,
              payment_method = PaymentMethod onrampTx,
              source_currency = SourceCurrency onrampTx,
              target_currency = TargetCurrency onrampTx,
              transaction_type = ToUpper U (TransactionType onrampTx),
              transaction_status = Status onrampTx,
              transaction_hash = TransactionHash onrampTx,
              partner_context = PartnerContext onrampTx,
              wallet_address = WalletAddress onrampTx,
              onramp_transaction_id = OnrampTransactionID onrampTx,
              transaction_id = TransactionID onrampTx\<rparr> s of
        (ExecError e, s') \<Rightarrow> (('''', Some (''failed to execute mutation: '' @ e)), s')
      | (DecodeError e, s') \<Rightarrow> (('''', Some e), s')
      | (Data (uid, tid, st), s') \<Rightarrow>
          if uid = '''' then (('''', Some ''database returned empty user ID''), s')
          else ((uid, None), s'))"

text \<open>\<^verbatim>\<open>func (c *GraphQLClient) GetUserIDFromTransaction(ctx, transactionID, onrampTxID, walletAddress string) (detail string, err error)\<close>\<close>

definition GetUserIDFromTransaction ::
  "(string \<Rightarrow> string \<Rightarrow> string \<Rightarrow> 's \<Rightarrow> string reply \<times> 's)
     \<Rightarrow> string \<Rightarrow> string \<Rightarrow> string \<Rightarrow> 's \<Rightarrow> string result \<times> 's" where
  "GetUserIDFromTransaction ExecRaw transactionID onrampTxID walletAddress s =
     (case ExecRaw transactionID onrampTxID walletAddress s of
        (ExecError e, s') \<Rightarrow> (('''', Some ''failed to query the database''), s')
      | (DecodeError e, s') \<Rightarrow> (('''', Some ''unable to execute Query''), s')
      | (Data uid, s') \<Rightarrow>
          if uid = '''' then (('''', Some ''no transaction found''), s')
          else ((uid, None), s'))"

text \<open>
  The \<open>query\<close> of \<open>UpdateKYCStatus\<close> (part_006, lines 206 to 222) with the variables
  \<open>user_id\<close> and \<open>new_status\<close>.
\<close>

definition UpsertKYCStatus_mutation :: "string \<Rightarrow> string \<Rightarrow> insert_one" where
  "UpsertKYCStatus_mutation userID newStatus =
     \<lparr>into_table = ''terrace_schema_id_verification_sessions'',
      insert_object = [(''user_id'', userID), (''status'', newStatus)],
      on_conflict_constraint = ''id_verification_sessions_user_id_key'',
      update_columns = [''status'', ''updated_at''],
      where_neq = Some (''status'', ''APPROVED''),
      selection = [''verification_session_id'', ''status'', ''updated_at'']\<rparr>"

text \<open>
  \<^verbatim>\<open>func (c *GraphQLClient) UpdateKYCStatus(ctx, userID, newStatus string) (updatedStatus string, err error)\<close>.
  On every error the method returns \<open>newStatus\<close> beside the error.
\<close>

definition UpdateKYCStatus ::
  "(insert_one \<Rightarrow> 's \<Rightarrow> (string \<times> string) reply \<times> 's)
     \<Rightarrow> string \<Rightarrow> string \<Rightarrow> 's \<Rightarrow> string result \<times> 's" where
  "UpdateKYCStatus ExecRaw userID newStatus s =
     (case ExecRaw (UpsertKYCStatus_mutation userID newStatus) s of
        (ExecError e, s') \<Rightarrow> ((newStatus, Some (''graphql execution failed: '' @ e)), s')
      | (DecodeError e, s') \<Rightarrow> ((newStatus, Some (''response parsing failed: '' @ e)), s')
      | (Data (sid, st), s') \<Rightarrow>
          if st = '''' then ((newStatus, Some ''empty status in response''), s')
          else ((st, None), s'))"

subsection \<open>The Ledger Store\<close>

text \<open>
  Modelled from the spec: the Ledger Store, the external collaborator that keeps the
  verification records (sections 1, 5 and 6 of the spec). It is a remote endpoint and
  no code of the repository. The spec expects of it a row-level atomic upsert under a
  uniqueness constraint and a conditional update of the verification state. The model
  is the table of verification sessions: one row for each \<open>user_id\<close> (the constraint
  \<open>id_verification_sessions_user_id_key\<close>), a row giving a value to some of the columns
  (a column without a value is \<open>NULL\<close>). \<open>fault\<close> is the error of a request that does
  not reach the table, and \<open>fresh_id\<close> the \<open>verification_session_id\<close> the table gives
  to a new row. The column \<open>updated_at\<close> gets its value from the table's clock and is
  never written by the model.
\<close>

record ledger_store =
  id_verification_sessions :: "string \<rightharpoonup> (string \<rightharpoonup> string)"
  fault :: "string option"
  fresh_id :: string

text \<open>
  Modelled from the spec: the filter \<open>where: {column: {_neq: value}}\<close> of a conditional
  update, on the row in conflict. A \<open>NULL\<close> column does not pass it.
\<close>

definition passes_where :: "(string \<times> string) option \<Rightarrow> (string \<rightharpoonup> string) \<Rightarrow> bool" where
  "passes_where cond row =
     (case cond of
        None \<Rightarrow> True
      | Some (column, v) \<Rightarrow> (case row column of None \<Rightarrow> False | Some x \<Rightarrow> x \<noteq> v))"

text \<open>
  Modelled from the spec: what \<open>json.Unmarshal\<close> finds in the row returned for a
  selection, the \<open>verification_session_id\<close> and the \<open>status\<close>.
\<close>

definition selected :: "string list \<Rightarrow> (string \<rightharpoonup> string) \<Rightarrow> string \<Rightarrow> string" where
  "selected sel row column =
     (if column \<in> set sel
      then (case row column of None \<Rightarrow> '''' | Some v \<Rightarrow> v) else '''')"

text \<open>
  Modelled from the spec: the Ledger Store's atomic upsert, which reads the mutation it
  is sent. Without a row for the \<open>user_id\<close> of the object it inserts the object as a
  new row and returns it. With a row in conflict it does what \<open>on_conflict\<close> says: if
  the row passes the \<open>where\<close> filter (or there is none) the columns of
  \<open>update_columns\<close> take their values from the object and the row is returned;
  otherwise the row stays as it is and \<open>null\<close> is returned, which decodes to the zero
  struct. A conflict that \<open>on_conflict\<close> does not name the constraint of is an error.
\<close>

definition store_insert_one ::
  "insert_one \<Rightarrow> ledger_store \<Rightarrow> (string \<times> string) reply \<times> ledger_store" where
  "store_insert_one q st =
     (case fault st of
        Some e \<Rightarrow> (ExecError e, st)
      | None \<Rightarrow>
          if into_table q \<noteq> ''terrace_schema_id_verification_sessions''
          then (ExecError ''field not found in type: mutation_root'', st)
          else
            (case map_of (insert_object q) ''user_id'' of
               None \<Rightarrow> (ExecError ''Not-NULL violation'', st)
             | Some key \<Rightarrow>
                 (case id_verification_sessions st key of
                    None \<Rightarrow>
                      (let row = (map_of (insert_object q))
                                   (''verification_session_id'' \<mapsto> fresh_id st)
                       in (Data (selected (selection q) row ''verification_session_id'',
                                 selected (selection q) row ''status''),
                           st\<lparr>id_verification_sessions :=
                                 (id_verification_sessions st)(key \<mapsto> row)\<rparr>))
                  | Some old \<Rightarrow>
                      if on_conflict_constraint q \<noteq> ''id_verification_sessions_user_id_key''
                      then (ExecError ''Uniqueness violation'', st)
                      else if passes_where (where_neq q) old
                      then
                        (let row = (\<lambda>column.
                               if column \<in> set (update_columns q)
                               then (case map_of (insert_object q) column of
                                       None \<Rightarrow> old column
                                     | Some v \<Rightarrow> Some v)
                               else old column)
                         in (Data (selected (selection q) row ''verification_session_id'',
                                   selected (selection q) row ''status''),
                             st\<lparr>id_verification_sessions :=
                                   (id_verification_sessions st)(key \<mapsto> row)\<rparr>))
                      else (Data ('''', ''''), st))))"

text \<open>The verification state stored for a user.\<close>

definition stored_state :: "ledger_store \<Rightarrow> string \<Rightarrow> string option" where
  "stored_state st userID =
     (case id_verification_sessions st userID of None \<Rightarrow> None | Some row \<Rightarrow> row ''status'')"

subsection \<open>A recording test double\<close>

text \<open>
  A client in the manner of the mocks of \<open>webhook_test.go\<close>: its state is the list of
  the calls it has received, every lookup resolves to \<open>user123\<close> and every write is
  answered with what was written.
\<close>

datatype db_call =
    UpsertCall fiat_transaction
  | LookupCall string string string
  | KYCCall string string

definition object_field :: "(string \<times> string) list \<Rightarrow> string \<Rightarrow> string" where
  "object_field obj column = (case map_of obj column of None \<Rightarrow> '''' | Some v \<Rightarrow> v)"

definition mock_client :: "db_call list GraphQLClient" where
  "mock_client =
     \<lparr>ExecRaw_UpsertFiatTransaction =
        (\<lambda>obj s. (Data (user_id obj, transaction_id obj, transaction_status obj),
                   s @ [UpsertCall obj])),
      ExecRaw_GetUserIDFromTransaction =
        (\<lambda>t ot wa s. (Data ''user123'', s @ [LookupCall t ot wa])),
      ExecRaw_UpsertKYCStatus =
        (\<lambda>q s. (Data (''session1'', object_field (insert_object q) ''status''),
                 s @ [KYCCall (object_field (insert_object q) ''user_id'')
                        (object_field (insert_object q) ''status'')]))\<rparr>"

section \<open>Package \<open>onramper\<close>: reconciliation and the webhook endpoint\<close>

text \<open>
  \<^verbatim>\<open>type OnramperManager struct\<close>: the fields the webhook code reads. The calls of
  \<open>w.Logger\<close> write to the log only and are left out.
\<close>

record 's OnramperManager =
  dbClient :: "'s GraphQLClient"
  WebhookSecret :: string

text \<open>\<open>context.Background()\<close> is never cancelled: its \<open>Err()\<close> is \<open>nil\<close>.\<close>

definition Background_Err :: "string option" where
  "Background_Err = None"

text \<open>
  \<^verbatim>\<open>func (w *OnramperManager) UpdateTransaction(payload models.WebhookPayload) (returnedUserID string, err error)\<close>.
  \<^verbatim>\<open>var userID string\<close> declares the local with its zero value, and nothing assigns it.
\<close>

definition UpdateTransaction ::
  "unicode \<Rightarrow> 's OnramperManager \<Rightarrow> WebhookPayload \<Rightarrow> 's \<Rightarrow> string result \<times> 's" where
  "UpdateTransaction U w payload s =
     (let userID = '''';
          onrampTx = \<lparr>Country = Country payload, InAmount = InAmount payload,
                      Onramp = Onramp payload,
                      OnrampTransactionID = OnrampTransactionID payload,
                      OutAmount = OutAmount payload, PaymentMethod = PaymentMethod payload,
                      PartnerContext = PartnerContext payload,
                      SourceCurrency = SourceCurrency payload, Status = Status payload,
                      StatusDate = StatusDate payload, TargetCurrency = TargetCurrency payload,
                      TransactionID = TransactionID payload,
                      TransactionType = TransactionType payload,
                      TransactionHash = TransactionHash payload,
                      WalletAddress = WalletAddress payload\<rparr>
      in if userID = '''' then (('''', Some ''user ID is required''), s)
         else if TransactionID onrampTx = '''' then (('''', Some ''user ID is required''), s)
         else if Status onrampTx = '''' then (('''', Some ''transaction status is required''), s)
         else (case Background_Err of
                 Some e \<Rightarrow> (('''', Some (''operation cancelled: '' @ e)), s)
               | None \<Rightarrow>
                   (case UpsertOnramperTransaction U
                           (ExecRaw_UpsertFiatTransaction (dbClient w)) onrampTx userID s of
                      ((returnedUserID, Some e), s') \<Rightarrow>
                        ((returnedUserID, Some (''failed to store transaction: '' @ e)), s')
                    | ((returnedUserID, None), s') \<Rightarrow> ((returnedUserID, None), s'))))"

text \<open>
  \<^verbatim>\<open>func (w *OnramperManager) HandleKYCWebhook(payload *models.WebhookPayload) (kycStatus string, err error)\<close>.
  The pointer is \<open>None\<close> when \<open>nil\<close>. \<open>kycStatus\<close> is never assigned, so every error
  return carries the empty string.
\<close>

definition HandleKYCWebhook ::
  "unicode \<Rightarrow> 's OnramperManager \<Rightarrow> WebhookPayload option \<Rightarrow> 's
     \<Rightarrow> string result \<times> 's" where
  "HandleKYCWebhook U w payload s =
     (case payload of
        None \<Rightarrow> (('''', Some ''webhook payload cannot be nil''), s)
      | Some p \<Rightarrow>
          (let transactionID = TrimSpace U (TransactionID p);
               onrampTxID = TrimSpace U (OnrampTransactionID p);
               walletAddress = TrimSpace U (WalletAddress p);
               rawStatus = TrimSpace U (Status p)
           in if transactionID = '''' \<and> onrampTxID = '''' \<and> walletAddress = ''''
              then (('''', Some ''transaction identifiers required''), s)
              else
                (case GetUserIDFromTransaction (ExecRaw_GetUserIDFromTransaction (dbClient w))
                        transactionID onrampTxID walletAddress s of
                   ((userID, Some e), s1) \<Rightarrow> (('''', Some (''user resolution failed: '' @ e)), s1)
                 | ((userID, None), s1) \<Rightarrow>
                     (let lowered = ToLower U rawStatus;
                          newStatus =
                            (if lowered = ''completed'' then Some ''APPROVED''
                             else if lowered = ''failed'' \<or> lowered = ''canceled''
                               then Some ''REJECTED''
                             else if lowered = ''pending'' then Some ''PENDING''
                             else None)
                      in case newStatus of
                           None \<Rightarrow> (('''', Some (''invalid status: '' @ rawStatus)), s1)
                         | Some st \<Rightarrow>
                             (case UpdateKYCStatus (ExecRaw_UpsertKYCStatus (dbClient w)) userID st s1 of
                                ((resultStatus, Some e), s2) \<Rightarrow>
                                  (('''', Some (''kyc update failed: '' @ e)), s2)
                              | ((resultStatus, None), s2) \<Rightarrow> ((resultStatus, None), s2))))))"

text \<open>
  A request as \<open>WebhookHandler\<close> reads it: the header \<open>X-Onramper-Webhook-Signature\<close>
  (\<open>Header.Get\<close> gives the empty string when it is absent) and the outcome of
  \<open>io.ReadAll(c.Request.Body)\<close>, an error or the bytes of the body.
\<close>

record http_request =
  X_Onramper_Webhook_Signature :: string
  Body :: "string + string"

text \<open>
  What a run of the handler does: the calls \<open>c.JSON(code, gin.H{key: text})\<close> in the
  order they are made, the bodies it has handed to \<open>json.Unmarshal\<close>, and the state of
  the database endpoint it leaves.
\<close>

record 's handled =
  responses :: "(nat \<times> string \<times> string) list"
  unmarshalled :: "string list"
  db :: 's

text \<open>
  \<^verbatim>\<open>func (w *OnramperManager) WebhookHandler(c *gin.Context)\<close>. \<open>encoding/json\<close> is not
  embedded: \<open>json_Unmarshal\<close> is the result of \<^verbatim>\<open>json.Unmarshal(body, &payload)\<close>, an error
  or the payload. The branch taken on an error has no \<open>return\<close>, and the second test of
  \<open>err\<close> only writes to the log.
\<close>

definition WebhookHandler ::
  "(string \<Rightarrow> string + WebhookPayload) \<Rightarrow> 's OnramperManager \<Rightarrow> http_request \<Rightarrow> 's
     \<Rightarrow> 's handled" where
  "WebhookHandler json_Unmarshal w c s =
     (case Body c of
        Inl e \<Rightarrow>
          \<lparr>responses = [(400, ''error'', ''Invalid request'')], unmarshalled = [], db = s\<rparr>
      | Inr body \<Rightarrow>
          if \<not> ValidateSignature (X_Onramper_Webhook_Signature c) body (WebhookSecret w)
          then \<lparr>responses = [(401, ''error'', ''Invalid signature'')], unmarshalled = [],
                db = s\<rparr>
          else
            (let err = (case json_Unmarshal body of Inl e \<Rightarrow> Some e | Inr payload \<Rightarrow> None);
                 written = (if err \<noteq> None then [(500, ''error'', ''Database error'')] else [])
             in \<lparr>responses = written @ [(200, ''message'', ''Webhook received'')],
                 unmarshalled = [body], db = s\<rparr>))"

text \<open>
  The results of \<open>json.Unmarshal\<close> on the two bodies used as examples below: the object
  with the fields \<open>status\<close> and \<open>transactionId\<close>, which decodes into the payload with
  these two fields set, and the text \<open>{\<close>, which is not JSON. The function stands for
  \<open>json.Unmarshal\<close> on these two bodies only.
\<close>

definition example_body :: string where
  "example_body = ''{\"status\":\"completed\",\"transactionId\":\"TX42\"}''"

definition example_Unmarshal :: "string \<Rightarrow> string + WebhookPayload" where
  "example_Unmarshal body =
     (if body = example_body
      then Inr (zero_WebhookPayload\<lparr>Status := ''completed'', TransactionID := ''TX42''\<rparr>)
      else Inl ''unexpected end of JSON input'')"

section \<open>Facts about the library functions\<close>

text \<open>The model of SHA-256 on the test vector \<open>abc\<close> of FIPS 180-4.\<close>

lemma sha256_Sum256_abc:
  "hex_EncodeToString (sha256_Sum256 ''abc'')
     = ''ba7816bf8f01cfea414140de5dae2223b00361a396177a9cb410ff61f20015ad''"
  by code_simp

text \<open>The model of HMAC-SHA256 on test case 2 of RFC 4231.\<close>

lemma hmac_sha256_rfc4231_case2:
  "hex_EncodeToString (hmac_sha256 ''Jefe'' ''what do ya want for nothing?'')
     = ''5bdcc146bf60754e6a042426089575c75a003f089d2739839dec58b964ec3843''"
  by code_simp

lemma length_hex_EncodeToString: "length (hex_EncodeToString s) = 2 * length s"
  by (induction s) (simp_all add: hex_EncodeToString_def)

lemma distinct_hextable: "distinct hextable"
  by (simp add: hextable_def)

lemma hex_digits_inj:
  assumes "n < 256" "m < 256"
    and "hextable ! (n div 16) = hextable ! (m div 16)"
    and "hextable ! (n mod 16) = hextable ! (m mod 16)"
  shows "n = (m::nat)"
proof -
  have len: "length hextable = 16" by (simp add: hextable_def)
  have "n div 16 < 16" "m div 16 < 16" using assms(1,2) by auto
  with assms(3) have d: "n div 16 = m div 16"
    using distinct_hextable len by (simp add: nth_eq_iff_index_eq)
  have "n mod 16 < 16" "m mod 16 < 16" by auto
  with assms(4) have r: "n mod 16 = m mod 16"
    using distinct_hextable len by (simp add: nth_eq_iff_index_eq)
  have "n = 16 * (n div 16) + n mod 16" by simp
  also have "\<dots> = 16 * (m div 16) + m mod 16" using d r by simp
  also have "\<dots> = m" by simp
  finally show ?thesis .
qed

text \<open>Two byte sequences with the same hexadecimal text are the same.\<close>

lemma hex_EncodeToString_inj:
  "hex_EncodeToString a = hex_EncodeToString b \<Longrightarrow> a = b"
proof (induction a arbitrary: b)
  case Nil
  then show ?case by (cases b) (simp_all add: hex_EncodeToString_def)
next
  case (Cons c cs)
  show ?case
  proof (cases b)
    case Nil
    with Cons.prems show ?thesis by (simp add: hex_EncodeToString_def)
  next
    case (Cons d ds)
    with Cons.prems
    have hi: "hextable ! ((of_char c :: nat) div 16) = hextable ! ((of_char d :: nat) div 16)"
      and lo: "hextable ! ((of_char c :: nat) mod 16) = hextable ! ((of_char d :: nat) mod 16)"
      and rest: "hex_EncodeToString cs = hex_EncodeToString ds"
      by (simp_all add: hex_EncodeToString_def)
    have "(of_char c :: nat) = of_char d"
      using hex_digits_inj [OF _ _ hi lo] by simp
    then have "c = d" by simp
    moreover have "cs = ds" using Cons.IH [OF rest] .
    ultimately show ?thesis using Cons by simp
  qed
qed

text \<open>
  HMAC fills a key shorter than the block with zero bytes, so a zero byte appended to
  such a key changes nothing.
\<close>

lemma hmac_key_block_zero:
  assumes "length k < 64"
  shows "hmac_key_block (k @ [CHR 0x00]) = hmac_key_block k"
proof -
  have "64 - length k = Suc (64 - Suc (length k))" using assms by arith
  then have "replicate (64 - length k) (CHR 0x00)
               = CHR 0x00 # replicate (64 - Suc (length k)) (CHR 0x00)"
    by simp
  then show ?thesis using assms by (simp add: hmac_key_block_def)
qed

lemma hmac_sha256_zero:
  "length k < 64 \<Longrightarrow> hmac_sha256 (k @ [CHR 0x00]) payload = hmac_sha256 k payload"
  by (simp add: hmac_sha256_def hmac_key_block_zero)

text \<open>A text of odd length is no hexadecimal digest.\<close>

lemma invalid_signature_rejected:
  "\<not> ValidateSignature ''invalid-signature'' body ''test-secret''"
proof
  assume "ValidateSignature ''invalid-signature'' body ''test-secret''"
  then have "''invalid-signature'' = hex_EncodeToString (hmac_sha256 ''test-secret'' body)"
    by (simp add: ValidateSignature_def hmac_Equal_def)
  then have "length ''invalid-signature'' = 2 * length (hmac_sha256 ''test-secret'' body)"
    by (simp only: length_hex_EncodeToString)
  then show False by simp arith
qed


text \<open>
  On the ASCII texts of the examples the results do not depend on the functions of
  package \<open>unicode\<close>.
\<close>

lemma ToLower_Refunded: "ToLower U ''Refunded'' = ''refunded''"
  by code_simp

lemma ToLower_refunded: "ToLower U ''refunded'' = ''refunded''"
  by code_simp

lemma ToLower_TrimSpace_Completed: "ToLower U (TrimSpace U ''Completed'') = ''completed''"
  by code_simp

lemma ToLower_TrimSpace_padded: "ToLower U (TrimSpace U '' completed'') = ''completed''"
  by code_simp

lemma ToLower_padded: "ToLower U '' completed'' = '' completed''"
  by code_simp

lemma TrimSpace_refunded: "TrimSpace U ''refunded'' = ''refunded''"
  by code_simp

lemma TrimSpace_TX42: "TrimSpace U ''TX42'' = ''TX42''"
  by code_simp

lemma TrimSpace_empty: "TrimSpace U '''' = ''''"
  by (simp add: TrimSpace_def isASCII_def)

lemma MapTransactionStatus_empty: "MapTransactionStatus U '''' = ''new''"
  by code_simp

lemma MapTransactionStatus_IN_PROGRESS: "MapTransactionStatus U ''IN_PROGRESS'' = ''pending''"
  by code_simp

section \<open>Facts about the test double\<close>

lemma mock_lookup:
  "GetUserIDFromTransaction (ExecRaw_GetUserIDFromTransaction mock_client) t ot wa s
     = ((''user123'', None), s @ [LookupCall t ot wa])"
  by (simp add: GetUserIDFromTransaction_def mock_client_def)

lemma mock_update:
  "n \<noteq> '''' \<Longrightarrow>
   UpdateKYCStatus (ExecRaw_UpsertKYCStatus mock_client) u n s = ((n, None), s @ [KYCCall u n])"
  by (simp add: UpdateKYCStatus_def mock_client_def UpsertKYCStatus_mutation_def
      object_field_def)

section \<open>The status mapper\<close>

text \<open>
  C8. \<open>MapTransactionStatus\<close> is total: for every input string, the empty string and
  \<open>IN_PROGRESS\<close> among them, and whatever package \<open>unicode\<close> does to a text that is not
  ASCII, it returns one of the five canonical transaction states \<open>pending\<close>,
  \<open>completed\<close>, \<open>paid\<close>, \<open>failed\<close>, \<open>new\<close>, never an error; a string that, lowered,
  matches none of the recognised patterns maps to \<open>new\<close>.
\<close>

theorem MapTransactionStatus_total:
  "MapTransactionStatus U s \<in> set [''pending'', ''completed'', ''paid'', ''failed'', ''new'']
   \<and> MapTransactionStatus U '''' = ''new''
   \<and> MapTransactionStatus U ''IN_PROGRESS'' = ''pending''
   \<and> (\<not> Contains (ToLower U s) ''pending'' \<and> \<not> Contains (ToLower U s) ''in_progress''
        \<and> \<not> Contains (ToLower U s) ''processing'' \<and> \<not> Contains (ToLower U s) ''completed''
        \<and> \<not> Contains (ToLower U s) ''confirmed'' \<and> ToLower U s \<noteq> ''paid''
        \<and> \<not> Contains (ToLower U s) ''failed'' \<and> \<not> Contains (ToLower U s) ''error''
      \<longrightarrow> MapTransactionStatus U s = ''new'')"
proof -
  have range: "MapTransactionStatus U s
                 \<in> set [''pending'', ''completed'', ''paid'', ''failed'', ''new'']"
    by (simp add: MapTransactionStatus_def Let_def)
  have default: "\<not> Contains (ToLower U s) ''pending'' \<and> \<not> Contains (ToLower U s) ''in_progress''
        \<and> \<not> Contains (ToLower U s) ''processing'' \<and> \<not> Contains (ToLower U s) ''completed''
        \<and> \<not> Contains (ToLower U s) ''confirmed'' \<and> ToLower U s \<noteq> ''paid''
        \<and> \<not> Contains (ToLower U s) ''failed'' \<and> \<not> Contains (ToLower U s) ''error''
      \<longrightarrow> MapTransactionStatus U s = ''new''"
    by (simp add: MapTransactionStatus_def Let_def)
  from range default show ?thesis
    by (simp only: MapTransactionStatus_empty MapTransactionStatus_IN_PROGRESS simp_thms)
qed

theorem MapTransactionStatus_total_witness:
  "MapTransactionStatus unicode_unused ''Refunded'' = ''new''
   \<and> MapTransactionStatus unicode_unused ''Refunded''
        \<in> set [''pending'', ''completed'', ''paid'', ''failed'', ''new'']"
  using MapTransactionStatus_total [of unicode_unused "''Refunded''"]
  by (simp add: ToLower_Refunded)

section \<open>The signature verifier\<close>

text \<open>
  C9. For every body and every received signature, \<open>ValidateSignature\<close> returns false
  when the configured secret is the empty string.
\<close>

theorem ValidateSignature_empty_secret:
  "ValidateSignature receivedSignature payload '''' = False"
  by (simp add: ValidateSignature_def)

text \<open>
  C3, as the code has it. For every body \<open>B\<close> and every non-empty secret \<open>S\<close>,
  \<open>ValidateSignature\<close> returns true exactly for the hexadecimal HMAC-SHA256 digest of
  \<open>B\<close> under \<open>S\<close>; the digest computed under another secret \<open>S'\<close> is accepted exactly
  when it is the same digest.
\<close>

theorem ValidateSignature_correct:
  "S \<noteq> '''' \<Longrightarrow>
     ValidateSignature sig B S = (sig = hex_EncodeToString (hmac_sha256 S B))
   \<and> ValidateSignature (hex_EncodeToString (hmac_sha256 S' B)) B S
       = (hmac_sha256 S' B = hmac_sha256 S B)"
  by (auto simp add: ValidateSignature_def hmac_Equal_def dest: hex_EncodeToString_inj)

theorem ValidateSignature_correct_witness:
  "''test-secret'' \<noteq> ''''
   \<and> ValidateSignature (hex_EncodeToString (hmac_sha256 ''test-secret'' example_body))
        example_body ''test-secret''
   \<and> \<not> ValidateSignature ''invalid-signature'' example_body ''test-secret''"
proof -
  have ne: "''test-secret'' \<noteq> ''''" by simp
  have odd: "''invalid-signature''
               \<noteq> hex_EncodeToString (hmac_sha256 ''test-secret'' example_body)"
  proof
    assume "''invalid-signature''
              = hex_EncodeToString (hmac_sha256 ''test-secret'' example_body)"
    then have "length ''invalid-signature''
                 = 2 * length (hmac_sha256 ''test-secret'' example_body)"
      by (simp only: length_hex_EncodeToString)
    then show False by simp arith
  qed
  from ValidateSignature_correct [OF ne, of _ example_body] odd show ?thesis by simp
qed

text \<open>
  C3 as stated fails: the secret \<open>k\<close> followed by a zero byte is another secret than
  \<open>k\<close>, and the digest computed under it verifies under \<open>k\<close>.
\<close>

theorem ValidateSignature_zero_padded_secret:
  "ValidateSignature (hex_EncodeToString (hmac_sha256 (''k'' @ [CHR 0x00]) ''{}'')) ''{}'' ''k''
   \<and> ''k'' @ [CHR 0x00] \<noteq> ''k''"
proof -
  have "hmac_sha256 (''k'' @ [CHR 0x00]) ''{}'' = hmac_sha256 ''k'' ''{}''"
    by (rule hmac_sha256_zero) simp
  then show ?thesis by (simp add: ValidateSignature_def hmac_Equal_def)
qed

section \<open>The webhook endpoint\<close>

text \<open>
  C4. For every request whose signature header does not verify against the raw body
  under the configured secret, the handler responds 401, the body is never handed to
  the parser, and the database endpoint is left as it was.
\<close>

theorem WebhookHandler_invalid_signature:
  "Body c = Inr body \<Longrightarrow>
   \<not> ValidateSignature (X_Onramper_Webhook_Signature c) body (WebhookSecret w) \<Longrightarrow>
   WebhookHandler json_Unmarshal w c s =
     \<lparr>responses = [(401, ''error'', ''Invalid signature'')], unmarshalled = [], db = s\<rparr>"
  by (simp add: WebhookHandler_def)

theorem WebhookHandler_invalid_signature_witness:
  "WebhookHandler example_Unmarshal \<lparr>dbClient = mock_client, WebhookSecret = ''test-secret''\<rparr>
      \<lparr>X_Onramper_Webhook_Signature = ''invalid-signature'', Body = Inr example_body\<rparr> []
    = \<lparr>responses = [(401, ''error'', ''Invalid signature'')], unmarshalled = [], db = []\<rparr>"
  using WebhookHandler_invalid_signature
    [of "\<lparr>X_Onramper_Webhook_Signature = ''invalid-signature'', Body = Inr example_body\<rparr>"
        example_body "\<lparr>dbClient = mock_client, WebhookSecret = ''test-secret''\<rparr>"
        example_Unmarshal "[]"]
    invalid_signature_rejected [of example_body]
  by simp

text \<open>
  C5, on the code. The claim asks for 400 and no further processing on a body that is
  not JSON. For the body \<open>{\<close> with a valid signature the handler calls
  \<open>c.JSON(500, ...)\<close> and then, having no \<open>return\<close>, \<open>c.JSON(200, ...)\<close>.
\<close>

theorem WebhookHandler_malformed_body:
  "WebhookHandler example_Unmarshal \<lparr>dbClient = mock_client, WebhookSecret = ''test-secret''\<rparr>
      \<lparr>X_Onramper_Webhook_Signature = hex_EncodeToString (hmac_sha256 ''test-secret'' ''{''),
       Body = Inr ''{''\<rparr> []
    = \<lparr>responses = [(500, ''error'', ''Database error''),
                     (200, ''message'', ''Webhook received'')],
       unmarshalled = [''{''], db = []\<rparr>"
  by (simp add: WebhookHandler_def ValidateSignature_def hmac_Equal_def example_Unmarshal_def
      example_body_def)

text \<open>
  C1, on the code. The claim asks for a ledger record and an \<open>APPROVED\<close> verification
  record after a signed \<open>completed\<close> event for \<open>TX42\<close>. The handler responds 200 and
  the client has received no call: neither \<open>UpdateTransaction\<close> nor \<open>HandleKYCWebhook\<close>
  is called.
\<close>

theorem WebhookHandler_completed_records_nothing:
  "WebhookHandler example_Unmarshal \<lparr>dbClient = mock_client, WebhookSecret = ''test-secret''\<rparr>
      \<lparr>X_Onramper_Webhook_Signature =
         hex_EncodeToString (hmac_sha256 ''test-secret'' example_body),
       Body = Inr example_body\<rparr> []
    = \<lparr>responses = [(200, ''message'', ''Webhook received'')],
       unmarshalled = [example_body], db = []\<rparr>"
  by (simp add: WebhookHandler_def ValidateSignature_def hmac_Equal_def example_Unmarshal_def)

text \<open>The handler leaves the database endpoint as it was, whatever the request.\<close>

theorem WebhookHandler_db: "db (WebhookHandler json_Unmarshal w c s) = s"
  by (simp add: WebhookHandler_def Let_def split: sum.splits)


section \<open>Reconciliation\<close>

text \<open>
  C10. For every payload, \<open>UpdateTransaction\<close> returns the error
  \<open>user ID is required\<close> and leaves the database endpoint as it was, whatever the
  client: its local \<open>userID\<close> is always empty, and \<open>UpsertOnramperTransaction\<close> is never
  reached.
\<close>

theorem UpdateTransaction_never_upserts:
  "UpdateTransaction U w payload s = (('''', Some ''user ID is required''), s)"
  by (simp add: UpdateTransaction_def)

text \<open>
  C6, on the code. The claim lets a payload with a transaction id and a status pass
  validation. \<open>UpdateTransaction\<close> rejects the payload with \<open>transactionId\<close> \<open>TX42\<close> and
  \<open>status\<close> \<open>completed\<close>.
\<close>

theorem UpdateTransaction_rejects_complete_payload:
  "UpdateTransaction U w
      (zero_WebhookPayload\<lparr>Status := ''completed'', TransactionID := ''TX42''\<rparr>) s
     = (('''', Some ''user ID is required''), s)"
  by (simp add: UpdateTransaction_def)

section \<open>Identity sync\<close>

text \<open>
  C7, as the code has it. Once the identifiers are present and the user is resolved,
  \<open>HandleKYCWebhook\<close> trims the status (\<open>strings.TrimSpace\<close>) and lowers its case
  (\<open>strings.ToLower\<close>); \<open>completed\<close> then maps to \<open>APPROVED\<close>, \<open>failed\<close> and \<open>canceled\<close>
  to \<open>REJECTED\<close>, \<open>pending\<close> to \<open>PENDING\<close>, and \<open>UpdateKYCStatus\<close> is called with that
  state; every other status fails with the error \<open>invalid status\<close> and the endpoint
  stays in the state the lookup left. This holds for every text, whatever package
  \<open>unicode\<close> does to one that is not ASCII.
\<close>

theorem HandleKYCWebhook_status_mapping:
  assumes ids: "\<not> (TrimSpace U (TransactionID p) = ''''
                   \<and> TrimSpace U (OnrampTransactionID p) = ''''
                   \<and> TrimSpace U (WalletAddress p) = '''')"
    and lookup: "GetUserIDFromTransaction (ExecRaw_GetUserIDFromTransaction (dbClient w))
                   (TrimSpace U (TransactionID p)) (TrimSpace U (OnrampTransactionID p))
                   (TrimSpace U (WalletAddress p)) s = ((userID, None), s1)"
  shows "(let status = ToLower U (TrimSpace U (Status p));
              update = (\<lambda>newStatus.
                 case UpdateKYCStatus (ExecRaw_UpsertKYCStatus (dbClient w)) userID newStatus s1 of
                   ((resultStatus, Some e), s2) \<Rightarrow> (('''', Some (''kyc update failed: '' @ e)), s2)
                 | ((resultStatus, None), s2) \<Rightarrow> ((resultStatus, None), s2))
          in (status = ''completed'' \<longrightarrow> HandleKYCWebhook U w (Some p) s = update ''APPROVED'')
           \<and> (status = ''failed'' \<or> status = ''canceled''
                \<longrightarrow> HandleKYCWebhook U w (Some p) s = update ''REJECTED'')
           \<and> (status = ''pending'' \<longrightarrow> HandleKYCWebhook U w (Some p) s = update ''PENDING'')
           \<and> (status \<noteq> ''completed'' \<and> status \<noteq> ''failed'' \<and> status \<noteq> ''canceled''
                \<and> status \<noteq> ''pending''
                \<longrightarrow> HandleKYCWebhook U w (Some p) s
                      = (('''', Some (''invalid status: '' @ TrimSpace U (Status p))), s1)))"
  using ids lookup by (auto simp add: HandleKYCWebhook_def Let_def)

theorem HandleKYCWebhook_status_mapping_witness:
  "HandleKYCWebhook unicode_unused \<lparr>dbClient = mock_client, WebhookSecret = ''test-secret''\<rparr>
       (Some (zero_WebhookPayload\<lparr>Status := ''Completed'', TransactionID := ''TX42''\<rparr>)) []
     = ((''APPROVED'', None), [LookupCall ''TX42'' '''' '''', KYCCall ''user123'' ''APPROVED''])
   \<and> HandleKYCWebhook unicode_unused \<lparr>dbClient = mock_client, WebhookSecret = ''test-secret''\<rparr>
       (Some (zero_WebhookPayload\<lparr>Status := ''refunded'', TransactionID := ''TX42''\<rparr>)) []
     = (('''', Some ''invalid status: refunded''), [LookupCall ''TX42'' '''' ''''])"
proof -
  let ?U = unicode_unused
  let ?w = "\<lparr>dbClient = mock_client, WebhookSecret = ''test-secret''\<rparr>"
  let ?p = "zero_WebhookPayload\<lparr>Status := ''Completed'', TransactionID := ''TX42''\<rparr>"
  let ?q = "zero_WebhookPayload\<lparr>Status := ''refunded'', TransactionID := ''TX42''\<rparr>"
  have idp: "\<not> (TrimSpace ?U (TransactionID ?p) = ''''
                \<and> TrimSpace ?U (OnrampTransactionID ?p) = ''''
                \<and> TrimSpace ?U (WalletAddress ?p) = '''')"
    by (simp add: TrimSpace_TX42)
  have lp: "GetUserIDFromTransaction (ExecRaw_GetUserIDFromTransaction (dbClient ?w))
              (TrimSpace ?U (TransactionID ?p)) (TrimSpace ?U (OnrampTransactionID ?p))
              (TrimSpace ?U (WalletAddress ?p)) []
            = ((''user123'', None), [LookupCall ''TX42'' '''' ''''])"
    by (simp add: mock_lookup TrimSpace_TX42 TrimSpace_empty zero_WebhookPayload_def)
  have idq: "\<not> (TrimSpace ?U (TransactionID ?q) = ''''
                \<and> TrimSpace ?U (OnrampTransactionID ?q) = ''''
                \<and> TrimSpace ?U (WalletAddress ?q) = '''')"
    by (simp add: TrimSpace_TX42)
  have lq: "GetUserIDFromTransaction (ExecRaw_GetUserIDFromTransaction (dbClient ?w))
              (TrimSpace ?U (TransactionID ?q)) (TrimSpace ?U (OnrampTransactionID ?q))
              (TrimSpace ?U (WalletAddress ?q)) []
            = ((''user123'', None), [LookupCall ''TX42'' '''' ''''])"
    by (simp add: mock_lookup TrimSpace_TX42 TrimSpace_empty zero_WebhookPayload_def)
  have a: "HandleKYCWebhook ?U ?w (Some ?p) []
     = ((''APPROVED'', None), [LookupCall ''TX42'' '''' '''', KYCCall ''user123'' ''APPROVED''])"
    using HandleKYCWebhook_status_mapping [OF idp lp]
    by (simp add: Let_def ToLower_TrimSpace_Completed mock_update)
  have b: "HandleKYCWebhook ?U ?w (Some ?q) []
     = (('''', Some ''invalid status: refunded''), [LookupCall ''TX42'' '''' ''''])"
    using HandleKYCWebhook_status_mapping [OF idq lq]
    by (simp add: Let_def ToLower_refunded TrimSpace_refunded)
  from a b show ?thesis by simp
qed

text \<open>
  C7 as stated fails: the status \<open>completed\<close> after a blank is none of the four
  statuses, whatever the case of its letters, and the derivation does not fail on it:
  \<open>UpdateKYCStatus\<close> is called with \<open>APPROVED\<close>. The text is ASCII.
\<close>

theorem HandleKYCWebhook_padded_status:
  "HandleKYCWebhook unicode_unused \<lparr>dbClient = mock_client, WebhookSecret = ''test-secret''\<rparr>
       (Some (zero_WebhookPayload\<lparr>Status := '' completed'', TransactionID := ''TX42''\<rparr>)) []
     = ((''APPROVED'', None), [LookupCall ''TX42'' '''' '''', KYCCall ''user123'' ''APPROVED''])
   \<and> ToLower unicode_unused '' completed'' \<noteq> ''completed''"
  by (simp add: HandleKYCWebhook_def Let_def ToLower_TrimSpace_padded ToLower_padded
      mock_lookup mock_update TrimSpace_TX42 TrimSpace_empty zero_WebhookPayload_def)

subsection \<open>The ratchet\<close>

text \<open>The four ways the Ledger Store answers the mutation of \<open>UpdateKYCStatus\<close>.\<close>

lemma upsert_fault:
  "fault st = Some e \<Longrightarrow> snd (UpdateKYCStatus store_insert_one userID newStatus st) = st"
  by (simp add: UpdateKYCStatus_def store_insert_one_def)

lemma upsert_new_row:
  "fault st = None \<Longrightarrow> id_verification_sessions st userID = None \<Longrightarrow>
   stored_state (snd (UpdateKYCStatus store_insert_one userID newStatus st)) u
     = (if u = userID then Some newStatus else stored_state st u)"
  by (simp add: UpdateKYCStatus_def store_insert_one_def UpsertKYCStatus_mutation_def
      stored_state_def Let_def split: prod.splits)

lemma upsert_filtered:
  "fault st = None \<Longrightarrow> id_verification_sessions st userID = Some old \<Longrightarrow>
   \<not> passes_where (Some (''status'', ''APPROVED'')) old \<Longrightarrow>
   snd (UpdateKYCStatus store_insert_one userID newStatus st) = st"
  by (simp add: UpdateKYCStatus_def store_insert_one_def UpsertKYCStatus_mutation_def)

lemma upsert_applied:
  "fault st = None \<Longrightarrow> id_verification_sessions st userID = Some old \<Longrightarrow>
   passes_where (Some (''status'', ''APPROVED'')) old \<Longrightarrow>
   stored_state (snd (UpdateKYCStatus store_insert_one userID newStatus st)) u
     = (if u = userID then Some newStatus else stored_state st u)"
  by (simp add: UpdateKYCStatus_def store_insert_one_def UpsertKYCStatus_mutation_def
      stored_state_def Let_def split: prod.splits)

text \<open>
  The ratchet is the \<open>where\<close> filter of the mutation the code sends: the same mutation
  without the filter puts the new state over any stored state, \<open>APPROVED\<close> too.
\<close>

lemma store_insert_one_unfiltered:
  "fault st = None \<Longrightarrow>
   stored_state (snd (store_insert_one
      ((UpsertKYCStatus_mutation userID newStatus)\<lparr>where_neq := None\<rparr>) st)) userID
     = Some newStatus"
  by (simp add: store_insert_one_def stored_state_def UpsertKYCStatus_mutation_def
      passes_where_def Let_def split: option.splits)

text \<open>
  C2. For a user whose stored verification state is \<open>APPROVED\<close>, \<open>UpdateKYCStatus\<close>
  with any new state, \<open>PENDING\<close> and \<open>REJECTED\<close> among them, leaves the stored state
  \<open>APPROVED\<close>; the upsert stores the new state for the user only when the request
  reaches the table and the user has no row or a row whose state is not \<open>APPROVED\<close>,
  and it changes no other user's state.
\<close>

theorem UpdateKYCStatus_ratchet:
  "(stored_state st userID = Some ''APPROVED'' \<longrightarrow>
      stored_state (snd (UpdateKYCStatus store_insert_one userID newStatus st)) userID
        = Some ''APPROVED'')
   \<and> stored_state (snd (UpdateKYCStatus store_insert_one userID newStatus st)) u
        = (if u = userID \<and> fault st = None
              \<and> (case id_verification_sessions st userID of
                    None \<Rightarrow> True
                  | Some row \<Rightarrow>
                      (case row ''status'' of None \<Rightarrow> False | Some x \<Rightarrow> x \<noteq> ''APPROVED''))
           then Some newStatus else stored_state st u)"
proof (cases "fault st")
  case (Some e)
  then show ?thesis by (simp add: upsert_fault)
next
  case None
  show ?thesis
  proof (cases "id_verification_sessions st userID")
    case no_row: None
    show ?thesis using upsert_new_row [OF None no_row] no_row None
      by (simp add: stored_state_def)
  next
    case (Some old)
    show ?thesis
    proof (cases "passes_where (Some (''status'', ''APPROVED'')) old")
      case True
      then show ?thesis using upsert_applied [OF None Some True] None Some
        by (auto simp add: stored_state_def passes_where_def split: option.splits)
    next
      case False
      then show ?thesis using upsert_filtered [OF None Some False] None Some
        by (auto simp add: stored_state_def passes_where_def split: option.splits)
    qed
  qed
qed

theorem UpdateKYCStatus_ratchet_witness:
  "stored_state \<lparr>id_verification_sessions =
                    [''user123'' \<mapsto> [''verification_session_id'' \<mapsto> ''session1'',
                                       ''user_id'' \<mapsto> ''user123'', ''status'' \<mapsto> ''APPROVED'']],
                  fault = None, fresh_id = ''session2''\<rparr> ''user123'' = Some ''APPROVED''
   \<and> stored_state (snd (UpdateKYCStatus store_insert_one ''user123'' ''REJECTED''
        \<lparr>id_verification_sessions =
            [''user123'' \<mapsto> [''verification_session_id'' \<mapsto> ''session1'',
                               ''user_id'' \<mapsto> ''user123'', ''status'' \<mapsto> ''APPROVED'']],
         fault = None, fresh_id = ''session2''\<rparr>)) ''user123'' = Some ''APPROVED''"
proof -
  let ?st = "\<lparr>id_verification_sessions =
                 [''user123'' \<mapsto> [''verification_session_id'' \<mapsto> ''session1'',
                                    ''user_id'' \<mapsto> ''user123'', ''status'' \<mapsto> ''APPROVED'']],
              fault = None, fresh_id = ''session2''\<rparr>"
  have st: "stored_state ?st ''user123'' = Some ''APPROVED''" by (simp add: stored_state_def)
  with UpdateKYCStatus_ratchet [of ?st "''user123''" "''REJECTED''" "''user123''"]
  show ?thesis by simp
qed

end
